theory Spec2Isabelle
  imports Main
begin

section \<open>Python values, dictionaries and exceptions\<close>

text \<open>
  The order-notification exercise (ejercicio1_tienda_online.py) passes orders, customers
  and notification results around as Python dicts with string keys.  A dict is an
  association list read with \<open>map_of\<close>; every dict literal of the source has distinct
  keys.  An f-string is kept as its template and the values interpolated into it, and a
  \<open>datetime.now().isoformat()\<close> string as the index of the clock read that made it: both
  are non-empty strings whose characters are not modelled.  Numbers are Python ints.
\<close>

datatype template = EmailMsg | SmsMsg | PushMsg

datatype pyval =
    PNone
  | PBool bool
  | PInt int
  | PStr string
  | PFString template "pyval list"
  | PTimestamp nat
  | PList "pyval list"
  | PDict "(string \<times> pyval) list"

type_synonym pydict = "(string \<times> pyval) list"

text \<open>
  The exceptions that the file raises or that its operations can raise.  \<open>ValueError\<close>
  stands for the class and its subclasses (what \<open>except ValueError\<close> catches);
  \<open>OtherException\<close> is any other subclass of \<open>Exception\<close>, named by its class.
\<close>

datatype py_error =
    KeyError string
  | ValueError string
  | TypeError
  | AttributeError
  | OtherException string

fun is_ValueError :: "py_error \<Rightarrow> bool" where
  "is_ValueError (ValueError m) = True"
| "is_ValueError e = False"

text \<open>\<open>bool(v)\<close>: what \<open>not v\<close> negates.\<close>

fun truthy :: "pyval \<Rightarrow> bool" where
  "truthy PNone = False"
| "truthy (PBool b) = b"
| "truthy (PInt i) = (i \<noteq> 0)"
| "truthy (PStr s) = (s \<noteq> [])"
| "truthy (PFString tpl args) = True"
| "truthy (PTimestamp n) = True"
| "truthy (PList xs) = (xs \<noteq> [])"
| "truthy (PDict d) = (d \<noteq> [])"

text \<open>\<open>d.get(k, default)\<close> and \<open>d[k]\<close> on a dict.\<close>

definition dict_get :: "pydict \<Rightarrow> string \<Rightarrow> pyval \<Rightarrow> pyval" where
  "dict_get d k dflt = (case map_of d k of None \<Rightarrow> dflt | Some v \<Rightarrow> v)"

definition dict_item :: "pydict \<Rightarrow> string \<Rightarrow> py_error + pyval" where
  "dict_item d k = (case map_of d k of None \<Rightarrow> Inl (KeyError k) | Some v \<Rightarrow> Inr v)"

text \<open>
  \<open>v[k]\<close> with a string key on an arbitrary value: only a dict can be subscripted with a
  string; a str or a list wants an integer index and the other values are not
  subscriptable, a TypeError in each case.
\<close>

fun py_getitem :: "pyval \<Rightarrow> string \<Rightarrow> py_error + pyval" where
  "py_getitem (PDict d) k = dict_item d k"
| "py_getitem v k = Inl TypeError"

text \<open>\<open>v.get(k)\<close> on an arbitrary value: only a dict has the method.\<close>

fun py_get :: "pyval \<Rightarrow> string \<Rightarrow> py_error + pyval" where
  "py_get (PDict d) k = Inr (dict_get d k PNone)"
| "py_get v k = Inl AttributeError"

text \<open>\<open>v <= 0\<close>: defined on ints and bools (\<open>True\<close> is 1), a TypeError otherwise.\<close>

fun py_le0 :: "pyval \<Rightarrow> py_error + bool" where
  "py_le0 (PInt i) = Inr (i \<le> 0)"
| "py_le0 (PBool b) = Inr (\<not> b)"
| "py_le0 v = Inl TypeError"

text \<open>Lists and dicts cannot be dict keys.\<close>

fun py_hashable :: "pyval \<Rightarrow> bool" where
  "py_hashable (PList xs) = False"
| "py_hashable (PDict d) = False"
| "py_hashable v = True"

text \<open>As dict keys \<open>True\<close> and 1, \<open>False\<close> and 0 are the same key.\<close>

fun key_norm :: "pyval \<Rightarrow> pyval" where
  "key_norm (PBool b) = PInt (if b then 1 else 0)"
| "key_norm v = v"

section \<open>Console output, clock and the state outside the system\<close>

text \<open>
  Every \<open>print\<close> of the file is one constructor, carrying the values it interpolates:
  \<^item> \<open>EmailSent\<close>, \<open>SmsSent\<close>, \<open>PushSent\<close>: "EMAIL enviado a ...", "SMS enviado a ...",
    "PUSH enviada a ..." with recipient and message;
  \<^item> \<open>RetryAttempt\<close>: "Intento a/m"; \<open>RetryError\<close>: "Error intento a: e";
  \<^item> \<open>LogStart\<close>: "[LOG] Iniciando type"; \<open>LogDone\<close>: "[LOG] Completado";
  \<^item> \<open>GroupHeader\<close>: "Grupo 'name':";
  \<^item> \<open>AnalyticsLine\<close>: "[Analytics] type registrado. Total: n"; \<open>AuditLine\<close>: "[Audit] type -> to";
  \<^item> \<open>OrderIdMissing\<close>: "Order ID faltante"; \<open>OrderIdValid\<close>: "Order ID valido";
    \<open>CustomerIncomplete\<close>: "Cliente incompleto"; \<open>CustomerValid\<close>: "Cliente valido";
    \<open>TotalInvalid\<close>: "Total invalido"; \<open>TotalValid\<close>: "Total valido";
  \<^item> \<open>SepLine\<close>: fifty "="; \<open>Procesando\<close>: "Procesando pedido #id"; \<open>Cliente\<close>: "Cliente: name";
    \<open>TotalLine\<close>: "Total: $total"; \<open>Validando\<close>: "Validando pedido...";
    \<open>PedidoInvalido\<close>: "Pedido invalido"; \<open>ErrorLine\<close>: "Error: e".
\<close>

datatype line =
    EmailSent pyval pyval
  | SmsSent pyval pyval
  | PushSent pyval pyval
  | RetryAttempt int int
  | RetryError int py_error
  | LogStart string
  | LogDone
  | GroupHeader string
  | AnalyticsLine pyval int
  | AuditLine pyval pyval
  | OrderIdMissing
  | OrderIdValid
  | CustomerIncomplete
  | CustomerValid
  | TotalInvalid
  | TotalValid
  | SepLine
  | Procesando pyval
  | Cliente pyval
  | TotalLine pyval
  | Validando
  | PedidoInvalido
  | ErrorLine py_error

text \<open>
  The world outside the objects: the lines printed so far, the number of clock reads so
  far, and for each notifier implemented outside the file (by name) the number of times
  its \<open>send\<close> has been called.
\<close>

record world =
  out :: "line list"
  tick :: nat
  calls :: "string \<Rightarrow> nat"

definition print :: "line \<Rightarrow> world \<Rightarrow> world" where
  "print l w = w\<lparr>out := out w @ [l]\<rparr>"

text \<open>\<open>datetime.now().isoformat()\<close>: the timestamp and the world after the read.\<close>

definition now_iso :: "world \<Rightarrow> pyval \<times> world" where
  "now_iso w = (PTimestamp (tick w), w\<lparr>tick := Suc (tick w)\<rparr>)"

type_synonym 'a action = "world \<Rightarrow> (py_error + 'a) \<times> world"

section \<open>Notifiers\<close>

text \<open>
  The classes that implement \<open>INotifier\<close>.  \<open>External name type behaviour\<close> is an
  implementation from outside the file (the interface is open: \<open>register_notifier\<close>,
  the decorators and the composite take any \<open>INotifier\<close>): \<open>behaviour i c o t\<close> is what its
  call number \<open>i\<close> of \<open>send(c, o, t)\<close> returns or raises, and the world counts its calls
  under \<open>name\<close>.
\<close>

datatype notifier =
    EmailNotifier
  | SMSNotifier
  | PushNotifier
  | NotifierDecorator notifier
  | RetryDecorator notifier int
  | LoggingDecorator notifier
  | CompositeNotifier string "notifier list"
  | External string string "nat \<Rightarrow> pyval \<Rightarrow> pyval \<Rightarrow> pyval \<Rightarrow> py_error + pydict"

fun get_notification_type :: "notifier \<Rightarrow> string" where
  "get_notification_type EmailNotifier = ''email''"
| "get_notification_type SMSNotifier = ''sms''"
| "get_notification_type PushNotifier = ''push''"
| "get_notification_type (NotifierDecorator n) = get_notification_type n"
| "get_notification_type (RetryDecorator n m) = get_notification_type n"
| "get_notification_type (LoggingDecorator n) = get_notification_type n"
| "get_notification_type (CompositeNotifier name ns) = ''composite_'' @ name"
| "get_notification_type (External name ty beh) = ty"

text \<open>
  The loop of \<open>RetryDecorator.send\<close> over \<open>range(max_retries)\<close>, given the wrapped
  notifier's send as an action: the first success is returned; a failure on the last
  attempt is re-raised, an earlier one printed; an empty range returns \<open>{}\<close>.
\<close>

fun retry_loop :: "pydict action \<Rightarrow> int \<Rightarrow> int list \<Rightarrow> pydict action" where
  "retry_loop inner max_retries [] w = (Inr [], w)"
| "retry_loop inner max_retries (attempt # rest) w =
     (case inner (print (RetryAttempt (attempt + 1) max_retries) w) of
        (Inr r, w1) \<Rightarrow> (Inr r, w1)
      | (Inl e, w1) \<Rightarrow>
          if attempt = max_retries - 1 then (Inl e, w1)
          else retry_loop inner max_retries rest (print (RetryError (attempt + 1) e) w1))"

text \<open>
  The loop of \<open>CompositeNotifier.send\<close> over the members' sends: each result is appended
  to \<open>results\<close>; a member that raises ends the loop with its exception.
\<close>

fun send_each :: "pydict action list \<Rightarrow> pyval list \<Rightarrow> (pyval list) action" where
  "send_each [] results w = (Inr results, w)"
| "send_each (a # as) results w =
     (case a w of
        (Inl e, w1) \<Rightarrow> (Inl e, w1)
      | (Inr r, w1) \<Rightarrow> send_each as (results @ [PDict r]) w1)"

fun send :: "notifier \<Rightarrow> pyval \<Rightarrow> pyval \<Rightarrow> pyval \<Rightarrow> pydict action" where
  "send EmailNotifier customer order_id total' w =
     (case py_getitem customer ''name'' of
        Inl e \<Rightarrow> (Inl e, w)
      | Inr nm \<Rightarrow>
          (case py_getitem customer ''email'' of
             Inl e \<Rightarrow> (Inl e, w)
           | Inr to \<Rightarrow>
               (let message = PFString EmailMsg [nm, order_id, total'];
                    w1 = print (EmailSent to message) w;
                    (ts, w2) = now_iso w1
                in (Inr [(''type'', PStr ''email''), (''to'', to), (''message'', message),
                         (''timestamp'', ts)], w2))))"
| "send SMSNotifier customer order_id total' w =
     (let message = PFString SmsMsg [order_id, total'] in
      case py_getitem customer ''phone'' of
        Inl e \<Rightarrow> (Inl e, w)
      | Inr to \<Rightarrow>
          (let w1 = print (SmsSent to message) w;
               (ts, w2) = now_iso w1
           in (Inr [(''type'', PStr ''sms''), (''to'', to), (''message'', message),
                    (''timestamp'', ts)], w2)))"
| "send PushNotifier customer order_id total' w =
     (let message = PFString PushMsg [order_id, total'] in
      case py_getitem customer ''device_id'' of
        Inl e \<Rightarrow> (Inl e, w)
      | Inr to \<Rightarrow>
          (let w1 = print (PushSent to message) w;
               (ts, w2) = now_iso w1
           in (Inr [(''type'', PStr ''push''), (''to'', to), (''message'', message),
                    (''timestamp'', ts)], w2)))"
| "send (NotifierDecorator n) customer order_id total' w = send n customer order_id total' w"
| "send (RetryDecorator n max_retries) customer order_id total' w =
     retry_loop (send n customer order_id total') max_retries [0..max_retries - 1] w"
| "send (LoggingDecorator n) customer order_id total' w =
     (case send n customer order_id total' (print (LogStart (get_notification_type n)) w) of
        (Inl e, w1) \<Rightarrow> (Inl e, w1)
      | (Inr r, w1) \<Rightarrow> (Inr r, print LogDone w1))"
| "send (CompositeNotifier name ns) customer order_id total' w =
     (case send_each (map (\<lambda>n. send n customer order_id total') ns) []
             (print (GroupHeader name) w) of
        (Inl e, w1) \<Rightarrow> (Inl e, w1)
      | (Inr results, w1) \<Rightarrow>
          (let (ts, w2) = now_iso w1
           in (Inr [(''type'', PStr ''composite''), (''group'', PStr name),
                    (''results'', PList results), (''timestamp'', ts)], w2)))"
| "send (External name ty beh) customer order_id total' w =
     (beh (calls w name) customer order_id total',
      w\<lparr>calls := (calls w)(name := Suc (calls w name))\<rparr>)"

section \<open>Factory and logger\<close>

text \<open>\<open>NotificationFactory._notifiers\<close>: the registry, as \<open>__init__\<close> fills it.\<close>

type_synonym factory = "string \<rightharpoonup> notifier"

definition NotificationFactory :: factory where
  "NotificationFactory =
     [''email'' \<mapsto> EmailNotifier, ''sms'' \<mapsto> SMSNotifier, ''push'' \<mapsto> PushNotifier]"

text \<open>
  \<open>get_notifier\<close>: no class of the file defines \<open>__bool__\<close> or \<open>__len__\<close>, so
  \<open>not notifier\<close> holds exactly when \<open>.get\<close> returned \<open>None\<close>.
\<close>

definition get_notifier :: "factory \<Rightarrow> string \<Rightarrow> py_error + notifier" where
  "get_notifier f notification_type =
     (case f notification_type of
        None \<Rightarrow> Inl (ValueError (''Tipo no soportado: '' @ notification_type))
      | Some notifier \<Rightarrow> Inr notifier)"

definition register_notifier :: "factory \<Rightarrow> string \<Rightarrow> notifier \<Rightarrow> factory" where
  "register_notifier f notification_type notifier = f(notification_type \<mapsto> notifier)"

text \<open>\<open>NotificationLogger\<close>: the list \<open>notifications_sent\<close>.\<close>

type_synonym logger = "pydict list"

definition log :: "logger \<Rightarrow> pydict \<Rightarrow> logger" where
  "log l notification_data = l @ [notification_data]"

definition get_history :: "logger \<Rightarrow> pydict list" where
  "get_history l = l"

section \<open>Observers\<close>

text \<open>
  \<open>AnalyticsObserver\<close> holds \<open>notification_count\<close>, a dict keyed by the notification
  type, in insertion order; \<open>AuditObserver\<close> holds \<open>audit_log\<close>.
\<close>

datatype observer =
    AnalyticsObserver "(pyval \<times> int) list"
  | AuditObserver "pydict list"

fun count_get :: "(pyval \<times> int) list \<Rightarrow> pyval \<Rightarrow> int \<Rightarrow> int" where
  "count_get [] k dflt = dflt"
| "count_get ((k', v) # rest) k dflt =
     (if key_norm k' = key_norm k then v else count_get rest k dflt)"

fun count_set :: "(pyval \<times> int) list \<Rightarrow> pyval \<Rightarrow> int \<Rightarrow> (pyval \<times> int) list" where
  "count_set [] k v = [(k, v)]"
| "count_set ((k', v') # rest) k v =
     (if key_norm k' = key_norm k then (k', v) # rest else (k', v') # count_set rest k v)"

text \<open>\<open>update\<close>: the result, the observer afterwards, the world afterwards.\<close>

fun update :: "observer \<Rightarrow> pydict \<Rightarrow> world \<Rightarrow> (py_error + unit) \<times> observer \<times> world" where
  "update (AnalyticsObserver notification_count) notification_data w =
     (let notif_type = dict_get notification_data ''type'' (PStr ''unknown'') in
      if \<not> py_hashable notif_type then (Inl TypeError, AnalyticsObserver notification_count, w)
      else
        (let n = count_get notification_count notif_type 0 + 1
         in (Inr (), AnalyticsObserver (count_set notification_count notif_type n),
             print (AnalyticsLine notif_type n) w)))"
| "update (AuditObserver audit_log) notification_data w =
     (let (ts, w1) = now_iso w;
          ty = dict_get notification_data ''type'' PNone;
          to = dict_get notification_data ''to'' PNone
      in (Inr (),
          AuditObserver (audit_log @ [[(''timestamp'', ts), (''notification_type'', ty),
                                       (''recipient'', to), (''status'', PStr ''sent'')]]),
          print (AuditLine ty to) w1))"

text \<open>
  \<open>_notify_observers\<close>: the observers in list order; one that raises ends the loop, the
  observers before it keep their updates.
\<close>

fun notify_observers ::
  "observer list \<Rightarrow> pydict \<Rightarrow> world \<Rightarrow> (py_error + unit) \<times> observer list \<times> world" where
  "notify_observers [] notification_data w = (Inr (), [], w)"
| "notify_observers (ob # obs) notification_data w =
     (case update ob notification_data w of
        (Inl e, ob1, w1) \<Rightarrow> (Inl e, ob1 # obs, w1)
      | (Inr u, ob1, w1) \<Rightarrow>
          (case notify_observers obs notification_data w1 of
             (r, obs1, w2) \<Rightarrow> (r, ob1 # obs1, w2)))"

section \<open>Validator chain\<close>

text \<open>Each validator holds \<open>_next_validator\<close>, \<open>None\<close> or the next link.\<close>

datatype validator =
    OrderIdValidator "validator option"
  | CustomerValidator "validator option"
  | TotalValidator "validator option"

text \<open>
  \<open>validate\<close>, with \<open>_call_next\<close> written in place: no next validator is \<open>True\<close>.
\<close>

fun validate :: "validator \<Rightarrow> pydict \<Rightarrow> bool action" where
  "validate (OrderIdValidator nxt) order_data w =
     (if \<not> truthy (dict_get order_data ''order_id'' PNone)
      then (Inr False, print OrderIdMissing w)
      else (case nxt of
              None \<Rightarrow> (Inr True, print OrderIdValid w)
            | Some v \<Rightarrow> validate v order_data (print OrderIdValid w)))"
| "validate (CustomerValidator nxt) order_data w =
     (let customer = dict_get order_data ''customer'' (PDict []) in
      case py_get customer ''name'' of
        Inl e \<Rightarrow> (Inl e, w)
      | Inr nm \<Rightarrow>
          (case py_get customer ''email'' of
             Inl e \<Rightarrow> (Inl e, w)
           | Inr em \<Rightarrow>
               if \<not> truthy nm \<or> \<not> truthy em
               then (Inr False, print CustomerIncomplete w)
               else (case nxt of
                       None \<Rightarrow> (Inr True, print CustomerValid w)
                     | Some v \<Rightarrow> validate v order_data (print CustomerValid w))))"
| "validate (TotalValidator nxt) order_data w =
     (case py_le0 (dict_get order_data ''total'' (PInt 0)) of
        Inl e \<Rightarrow> (Inl e, w)
      | Inr le \<Rightarrow>
          if le then (Inr False, print TotalInvalid w)
          else (case nxt of
                  None \<Rightarrow> (Inr True, print TotalValid w)
                | Some v \<Rightarrow> validate v order_data (print TotalValid w)))"

text \<open>
  \<open>_build_validator_chain\<close>: \<open>order_id.set_next(customer).set_next(total)\<close> links
  \<open>customer\<close> after \<open>order_id\<close> and \<open>total\<close> after \<open>customer\<close>, and \<open>order_id\<close> is returned.
\<close>

definition build_validator_chain :: validator where
  "build_validator_chain =
     OrderIdValidator (Some (CustomerValidator (Some (TotalValidator None))))"

section \<open>The order notification system\<close>

text \<open>
  \<open>OrderNotificationSystem\<close>: the factory, the logger and the observers.  The field
  \<open>_validator_chain\<close> is set once, in \<open>__init__\<close>, to \<open>_build_validator_chain()\<close>.
\<close>

record system =
  factory :: factory
  logger :: logger
  observers :: "observer list"

definition attach_observer :: "system \<Rightarrow> observer \<Rightarrow> system" where
  "attach_observer sys ob = sys\<lparr>observers := observers sys @ [ob]\<rparr>"

text \<open>The body of the \<open>try\<close> for one requested type.\<close>

definition channel_body ::
  "system \<Rightarrow> pyval \<Rightarrow> pyval \<Rightarrow> pyval \<Rightarrow> string \<Rightarrow> world \<Rightarrow> (py_error + unit) \<times> system \<times> world" where
  "channel_body sys customer order_id total' notif_type w =
     (case get_notifier (factory sys) notif_type of
        Inl e \<Rightarrow> (Inl e, sys, w)
      | Inr notifier \<Rightarrow>
          (case send notifier customer order_id total' w of
             (Inl e, w1) \<Rightarrow> (Inl e, sys, w1)
           | (Inr notification_data, w1) \<Rightarrow>
               (let sys1 = sys\<lparr>logger := log (logger sys) notification_data\<rparr>
                in case notify_observers (observers sys1) notification_data w1 of
                     (r, obs1, w2) \<Rightarrow> (r, sys1\<lparr>observers := obs1\<rparr>, w2))))"

text \<open>
  The \<open>for\<close> loop of \<open>process_order\<close>: a ValueError raised in the body is printed and the
  loop goes on; any other exception leaves the loop and the method.
\<close>

fun dispatch ::
  "system \<Rightarrow> pyval \<Rightarrow> pyval \<Rightarrow> pyval \<Rightarrow> string list \<Rightarrow> world \<Rightarrow> (py_error + unit) \<times> system \<times> world" where
  "dispatch sys customer order_id total' [] w = (Inr (), sys, w)"
| "dispatch sys customer order_id total' (notif_type # rest) w =
     (case channel_body sys customer order_id total' notif_type w of
        (Inl e, sys1, w1) \<Rightarrow>
          if is_ValueError e
          then dispatch sys1 customer order_id total' rest (print (ErrorLine e) w1)
          else (Inl e, sys1, w1)
      | (Inr u, sys1, w1) \<Rightarrow> dispatch sys1 customer order_id total' rest w1)"

text \<open>
  Leaving \<open>process_order\<close> after the loop: an exception goes on to the caller, and
  falling off the end of the method returns \<open>None\<close>.
\<close>

definition returning ::
  "(py_error + unit) \<times> system \<times> world \<Rightarrow> (py_error + pyval) \<times> system \<times> world" where
  "returning r = (case r of (Inl e, sys1, w1) \<Rightarrow> (Inl e, sys1, w1)
                          | (Inr u, sys1, w1) \<Rightarrow> (Inr PNone, sys1, w1))"

text \<open>
  \<open>process_order\<close>: what it raises or returns (\<open>None\<close> on both of its ways out), the
  system afterwards and the world afterwards.
\<close>

definition process_order ::
  "system \<Rightarrow> pydict \<Rightarrow> string list \<Rightarrow> world \<Rightarrow> (py_error + pyval) \<times> system \<times> world" where
  "process_order sys order_data notification_types w =
     (case dict_item order_data ''order_id'' of
        Inl e \<Rightarrow> (Inl e, sys, w)
      | Inr order_id \<Rightarrow>
     (case dict_item order_data ''customer'' of
        Inl e \<Rightarrow> (Inl e, sys, w)
      | Inr customer \<Rightarrow>
     (case dict_item order_data ''total'' of
        Inl e \<Rightarrow> (Inl e, sys, w)
      | Inr total' \<Rightarrow>
     (let w1 = print (Procesando order_id) (print SepLine w) in
      case py_getitem customer ''name'' of
        Inl e \<Rightarrow> (Inl e, sys, w1)
      | Inr nm \<Rightarrow>
     (let w2 = print Validando (print SepLine (print (TotalLine total') (print (Cliente nm) w1)))
      in case validate build_validator_chain order_data w2 of
        (Inl e, w3) \<Rightarrow> (Inl e, sys, w3)
      | (Inr ok, w3) \<Rightarrow>
          if \<not> ok then (Inr PNone, sys, print PedidoInvalido w3)
          else returning (dispatch sys customer order_id total' notification_types w3))))))"

definition get_notification_history :: "system \<Rightarrow> pydict list" where
  "get_notification_history sys = get_history (logger sys)"

section \<open>Vocabulary of the statements\<close>

text \<open>
  A fresh world: nothing printed, no clock read, no outside notifier called.
\<close>

definition world0 :: world where
  "world0 = \<lparr>out = [], tick = 0, calls = (\<lambda>name. 0)\<rparr>"

text \<open>
  An order passes validation when the chain of \<open>_build_validator_chain\<close> returns
  \<open>True\<close> on it (the result does not depend on the world, lemma \<open>validate_chain_fst\<close>).
\<close>

definition passes :: "pydict \<Rightarrow> bool" where
  "passes od \<longleftrightarrow> fst (validate build_validator_chain od world0) = Inr True"

text \<open>
  The world in which the loop of \<open>process_order\<close> starts for an order that passes
  validation: what the method and the three checks have printed by then.
\<close>

definition loop_world :: "pydict \<Rightarrow> world \<Rightarrow> world" where
  "loop_world od w =
     print TotalValid (print CustomerValid (print OrderIdValid (print Validando (print SepLine
       (print (TotalLine (dict_get od ''total'' PNone))
         (print (Cliente (case py_getitem (dict_get od ''customer'' PNone) ''name'' of
                            Inl e \<Rightarrow> PNone | Inr nm \<Rightarrow> nm))
           (print (Procesando (dict_get od ''order_id'' PNone)) (print SepLine w))))))))"

text \<open>
  \<open>send\<close> and the loop of \<open>process_order\<close> on the values of an order's three keys
  (for an order that has them, \<open>order_data['customer']\<close> and so on).
\<close>

abbreviation send_order :: "notifier \<Rightarrow> pydict \<Rightarrow> pydict action" where
  "send_order n od \<equiv>
     send n (dict_get od ''customer'' PNone) (dict_get od ''order_id'' PNone)
       (dict_get od ''total'' PNone)"

abbreviation run_loop ::
  "system \<Rightarrow> pydict \<Rightarrow> string list \<Rightarrow> world \<Rightarrow> (py_error + unit) \<times> system \<times> world" where
  "run_loop sys od \<equiv>
     dispatch sys (dict_get od ''customer'' PNone) (dict_get od ''order_id'' PNone)
       (dict_get od ''total'' PNone)"

text \<open>
  A result whose type can be a dict key, what \<open>AnalyticsObserver.update\<close> needs of it.
\<close>

definition typed :: "pydict \<Rightarrow> bool" where
  "typed d \<longleftrightarrow> py_hashable (dict_get d ''type'' (PStr ''unknown''))"


text \<open>
  Whether an observer's \<open>update\<close> raises on a notification: \<open>AnalyticsObserver\<close> does when
  the type cannot be a dict key, \<open>AuditObserver\<close> never does (lemma \<open>update_raises_on\<close>).
  A list of observers accepts a notification when none of them raises on it.
\<close>

fun raises_on :: "observer \<Rightarrow> pydict \<Rightarrow> bool" where
  "raises_on (AnalyticsObserver notification_count) d \<longleftrightarrow> \<not> typed d"
| "raises_on (AuditObserver audit_log) d \<longleftrightarrow> False"

definition accepted :: "observer list \<Rightarrow> pydict \<Rightarrow> bool" where
  "accepted obs d \<longleftrightarrow> list_all (\<lambda>ob. \<not> raises_on ob d) obs"

text \<open>
  The members \<open>ns\<close> are sent one after the other, each exactly once and each in the
  world that the one before left: from \<open>w\<close> they return the results \<open>rs\<close>, in this
  order, and leave \<open>w'\<close>.
\<close>

fun sent_in_turn ::
  "notifier list \<Rightarrow> pyval \<Rightarrow> pyval \<Rightarrow> pyval \<Rightarrow> world \<Rightarrow> pydict list \<Rightarrow> world \<Rightarrow> bool" where
  "sent_in_turn [] c oid t w rs w' \<longleftrightarrow> rs = [] \<and> w' = w"
| "sent_in_turn (n # ns) c oid t w rs w' \<longleftrightarrow>
     (case send n c oid t w of
        (Inl e, w1) \<Rightarrow> False
      | (Inr r, w1) \<Rightarrow>
          (case rs of [] \<Rightarrow> False | r' # rs' \<Rightarrow> r' = r \<and> sent_in_turn ns c oid t w1 rs' w'))"

text \<open>
  The line that an observer prints when it is updated with a notification.
\<close>

definition update_line :: "observer \<Rightarrow> pydict \<Rightarrow> line" where
  "update_line ob d =
     (case ob of
        AnalyticsObserver notification_count \<Rightarrow>
          AnalyticsLine (dict_get d ''type'' (PStr ''unknown''))
            (count_get notification_count (dict_get d ''type'' (PStr ''unknown'')) 0 + 1)
      | AuditObserver audit_log \<Rightarrow>
          AuditLine (dict_get d ''type'' PNone) (dict_get d ''to'' PNone))"

text \<open>A notifier made of the classes of the file only.\<close>

fun in_file :: "notifier \<Rightarrow> bool" where
  "in_file EmailNotifier = True"
| "in_file SMSNotifier = True"
| "in_file PushNotifier = True"
| "in_file (NotifierDecorator n) = in_file n"
| "in_file (RetryDecorator n m) = in_file n"
| "in_file (LoggingDecorator n) = in_file n"
| "in_file (CompositeNotifier name ns) = list_all in_file ns"
| "in_file (External name ty beh) = False"

section \<open>Sample inputs\<close>

text \<open>
  The customer and the order of the specification's scenario, the customer of the file's
  demonstration (with phone and device), and the system as \<open>OrderNotificationSystem()\<close>
  constructs it.
\<close>

definition customer_ana :: pyval where
  "customer_ana = PDict [(''name'', PStr ''Ana''), (''email'', PStr ''a@x.com'')]"

definition order_o1 :: pydict where
  "order_o1 = [(''order_id'', PStr ''O1''), (''customer'', customer_ana), (''total'', PInt 10)]"

definition customer_full :: pyval where
  "customer_full =
     PDict [(''name'', PStr ''Ana''), (''email'', PStr ''a@x.com''),
            (''phone'', PStr ''+34-600-123-456''), (''device_id'', PStr ''DEV-123'')]"

definition OrderNotificationSystem :: system where
  "OrderNotificationSystem = \<lparr>factory = NotificationFactory, logger = [], observers = []\<rparr>"

text \<open>
  Orders that fail one check each; the checks after the failing one would raise.
\<close>

definition order_no_id :: pydict where
  "order_no_id = [(''order_id'', PStr []), (''customer'', PNone), (''total'', PStr ''x'')]"

definition order_no_email :: pydict where
  "order_no_email =
     [(''order_id'', PStr ''O2''), (''customer'', PDict [(''name'', PStr ''Pedro'')]),
      (''total'', PStr ''x'')]"

definition order_negative :: pydict where
  "order_negative =
     [(''order_id'', PStr ''O3''), (''customer'', customer_ana), (''total'', PInt (- 10))]"


text \<open>
  Orders that lack one of the keys that \<open>process_order\<close> subscripts.
\<close>

definition order_without_id :: pydict where
  "order_without_id = [(''customer'', customer_ana), (''total'', PInt 10)]"

definition order_without_customer :: pydict where
  "order_without_customer = [(''order_id'', PStr ''O1''), (''total'', PInt 10)]"

definition order_without_total :: pydict where
  "order_without_total = [(''order_id'', PStr ''O1''), (''customer'', customer_ana)]"

text \<open>
  Notifiers from outside the file: one whose \<open>send\<close> raises on its first two calls and
  returns a result from the third on, one whose transport is always down, and one that
  rejects every recipient with a ValueError.
\<close>

definition fails_twice :: "nat \<Rightarrow> pyval \<Rightarrow> pyval \<Rightarrow> pyval \<Rightarrow> py_error + pydict" where
  "fails_twice i customer order_id total' =
     (if i < 2 then Inl (OtherException ''ConnectionError'')
      else Inr [(''type'', PStr ''email''), (''to'', PStr ''a@x.com'')])"

definition always_down :: "nat \<Rightarrow> pyval \<Rightarrow> pyval \<Rightarrow> pyval \<Rightarrow> py_error + pydict" where
  "always_down i customer order_id total' = Inl (OtherException ''ConnectionError'')"

definition rejects :: "nat \<Rightarrow> pyval \<Rightarrow> pyval \<Rightarrow> pyval \<Rightarrow> py_error + pydict" where
  "rejects i customer order_id total' = Inl (ValueError ''bad recipient'')"

text \<open>
  Systems with a further kind registered, \<open>fax\<close>: served by the notifier that is always
  down, behind a retry decorator; and served by the rejecting notifier.  And the system
  of the demonstration, with its two observers attached.
\<close>

definition system_down :: system where
  "system_down =
     OrderNotificationSystem
       \<lparr>factory := register_notifier NotificationFactory ''fax''
                     (RetryDecorator (External ''gateway'' ''fax'' always_down) 2)\<rparr>"

definition system_rejecting :: system where
  "system_rejecting =
     OrderNotificationSystem
       \<lparr>factory := register_notifier NotificationFactory ''fax''
                     (External ''gateway'' ''fax'' rejects)\<rparr>"

definition system_observed :: system where
  "system_observed =
     attach_observer (attach_observer OrderNotificationSystem (AnalyticsObserver []))
       (AuditObserver [])"

text \<open>
  A notifier from outside the file whose results carry a list as their type, the result
  it returns, and the system of the demonstration with that notifier registered as \<open>x\<close>.
\<close>

definition odd_result :: pydict where
  "odd_result = [(''type'', PList [PStr ''x'']), (''to'', PStr ''q'')]"

definition odd_type :: "nat \<Rightarrow> pyval \<Rightarrow> pyval \<Rightarrow> pyval \<Rightarrow> py_error + pydict" where
  "odd_type i customer order_id total' = Inr odd_result"

definition system_odd :: system where
  "system_odd =
     system_observed
       \<lparr>factory := register_notifier NotificationFactory ''x'' (External ''odd'' ''x'' odd_type)\<rparr>"

text \<open>
  The results that the three notifiers of the file return for the sample customers.
\<close>

definition email_result :: "nat \<Rightarrow> pydict" where
  "email_result i =
     [(''type'', PStr ''email''), (''to'', PStr ''a@x.com''),
      (''message'', PFString EmailMsg [PStr ''Ana'', PStr ''O1'', PInt 10]),
      (''timestamp'', PTimestamp i)]"

definition sms_result :: "nat \<Rightarrow> pydict" where
  "sms_result i =
     [(''type'', PStr ''sms''), (''to'', PStr ''+34-600-123-456''),
      (''message'', PFString SmsMsg [PStr ''O1'', PInt 10]),
      (''timestamp'', PTimestamp i)]"

definition push_result :: "nat \<Rightarrow> pydict" where
  "push_result i =
     [(''type'', PStr ''push''), (''to'', PStr ''DEV-123''),
      (''message'', PFString PushMsg [PStr ''O1'', PInt 10]),
      (''timestamp'', PTimestamp i)]"

section \<open>Helper lemmas\<close>

lemma upto_0_1: "[0..(1::int)] = [0, 1]"
  by (simp add: upto_rec1)

lemma upto_0_2: "[0..(2::int)] = [0, 1, 2]"
  by (simp add: upto_rec1)

lemmas sample_defs = process_order_def dict_item_def dict_get_def order_o1_def customer_ana_def
  customer_full_def world0_def OrderNotificationSystem_def NotificationFactory_def
  build_validator_chain_def channel_body_def get_notifier_def register_notifier_def
  returning_def print_def now_iso_def log_def Let_def system_down_def system_rejecting_def
  system_observed_def attach_observer_def always_down_def rejects_def upto_0_1 upto_0_2
  get_notification_history_def get_history_def loop_world_def email_result_def
  sms_result_def push_result_def odd_result_def odd_type_def system_odd_def

lemma validate_chain_fst:
  "fst (validate build_validator_chain od w) = fst (validate build_validator_chain od w')"
  by (simp add: build_validator_chain_def Let_def split: sum.splits)

lemma passes_validate:
  assumes "passes od"
  shows "validate build_validator_chain od w
           = (Inr True, print TotalValid (print CustomerValid (print OrderIdValid w)))"
proof -
  have "fst (validate build_validator_chain od w) = Inr True"
    using assms validate_chain_fst [of od w world0] by (simp add: passes_def)
  then show ?thesis
    by (auto simp: build_validator_chain_def Let_def split: sum.splits if_splits)
qed

lemma passes_keys:
  assumes "passes od"
  shows "\<exists>oid d t nm. map_of od ''order_id'' = Some oid \<and> map_of od ''customer'' = Some (PDict d)
           \<and> map_of od ''total'' = Some t \<and> map_of d ''name'' = Some nm"
proof -
  from assms have v: "fst (validate build_validator_chain od world0) = Inr True"
    by (simp add: passes_def)
  from v obtain oid where oid: "map_of od ''order_id'' = Some oid"
    by (cases "map_of od ''order_id''")
       (auto simp: build_validator_chain_def dict_get_def)
  from v oid obtain c where c: "map_of od ''customer'' = Some c"
    by (cases "map_of od ''customer''")
       (auto simp: build_validator_chain_def dict_get_def Let_def split: if_splits)
  from v oid c obtain d where d: "c = PDict d"
    by (cases c) (auto simp: build_validator_chain_def dict_get_def Let_def split: if_splits)
  from v oid c d obtain nm where nm: "map_of d ''name'' = Some nm"
    by (cases "map_of d ''name''")
       (auto simp: build_validator_chain_def dict_get_def Let_def split: if_splits)
  from v oid c d nm obtain t where t: "map_of od ''total'' = Some t"
    by (cases "map_of od ''total''")
       (auto simp: build_validator_chain_def dict_get_def Let_def split: if_splits sum.splits)
  from oid c d nm t show ?thesis by blast
qed

lemma process_order_passes:
  assumes "passes od"
  shows "process_order sys od kinds w =
           returning (dispatch sys (dict_get od ''customer'' PNone) (dict_get od ''order_id'' PNone)
                        (dict_get od ''total'' PNone) kinds (loop_world od w))"
proof -
  from passes_keys [OF assms] obtain oid d t nm where
    k: "map_of od ''order_id'' = Some oid" "map_of od ''customer'' = Some (PDict d)"
       "map_of od ''total'' = Some t" "map_of d ''name'' = Some nm"
    by blast
  show ?thesis
    by (simp add: process_order_def dict_item_def dict_get_def k passes_validate [OF assms]
          loop_world_def Let_def)
qed

lemma process_order_run_loop:
  "passes od \<Longrightarrow> process_order sys od kinds w = returning (run_loop sys od kinds (loop_world od w))"
  by (simp add: process_order_passes)

lemma passes_order_o1: "passes order_o1"
  by (simp add: passes_def sample_defs)

lemma update_raises_on:
  "fst (update ob d w) = (if raises_on ob d then Inl TypeError else Inr ())"
  by (cases ob) (simp_all add: typed_def Let_def now_iso_def split: prod.splits)

lemma update_raised:
  "raises_on ob d \<Longrightarrow> update ob d w = (Inl TypeError, ob, w)"
  by (cases ob) (simp_all add: typed_def Let_def)

lemma update_accepted:
  "\<not> raises_on ob d \<Longrightarrow> out (snd (snd (update ob d w))) = out w @ [update_line ob d]"
  by (cases ob) (simp_all add: typed_def update_line_def Let_def print_def now_iso_def)


lemma notify_observers_accepted:
  assumes "accepted obs d"
  shows "fst (notify_observers obs d w) = Inr ()
       \<and> length (fst (snd (notify_observers obs d w))) = length obs
       \<and> out (snd (snd (notify_observers obs d w))) = out w @ map (\<lambda>ob. update_line ob d) obs"
  using assms
proof (induction obs arbitrary: w)
  case Nil
  show ?case by simp
next
  case (Cons ob obs)
  from Cons.prems have nr: "\<not> raises_on ob d" and acc: "accepted obs d"
    by (simp_all add: accepted_def)
  obtain ob1 w1 where u: "update ob d w = (Inr (), ob1, w1)"
    using update_raises_on [of ob d w] nr by (cases "update ob d w") auto
  then have o: "out w1 = out w @ [update_line ob d]"
    using update_accepted [OF nr, of w] by simp
  obtain r obs1 w2 where n: "notify_observers obs d w1 = (r, obs1, w2)"
    by (cases "notify_observers obs d w1") auto
  with Cons.IH [OF acc, of w1] have "r = Inr ()" "length obs1 = length obs"
      "out w2 = out w1 @ map (\<lambda>ob. update_line ob d) obs"
    by simp_all
  with u n o show ?case by simp
qed


lemma notify_observers_raised:
  "notify_observers pre d w = (Inr (), pre1, w1) \<Longrightarrow> update ob d w1 = (Inl e, ob1, w2) \<Longrightarrow>
   notify_observers (pre @ ob # post) d w = (Inl e, pre1 @ ob1 # post, w2)"
proof (induction pre arbitrary: w pre1)
  case Nil
  then show ?case by simp
next
  case (Cons a pre)
  then show ?case
    by (auto split: prod.splits sum.splits)
qed

lemma typed_accepted: "typed d \<Longrightarrow> accepted obs d"
proof (induction obs)
  case Nil
  show ?case by (simp add: accepted_def)
next
  case (Cons ob obs)
  then show ?case by (cases ob) (simp_all add: accepted_def)
qed

lemma channel_body_factory:
  "factory (fst (snd (channel_body sys c oid t k w))) = factory sys"
  by (simp add: channel_body_def Let_def split: sum.splits prod.splits)

lemma channel_body_logger:
  "\<exists>rs. logger (fst (snd (channel_body sys c oid t k w))) = logger sys @ rs"
  by (simp add: channel_body_def Let_def log_def split: sum.splits prod.splits)

lemma dispatch_factory:
  "factory (fst (snd (dispatch sys c oid t kinds w))) = factory sys"
proof (induction kinds arbitrary: sys w)
  case Nil
  show ?case by simp
next
  case (Cons k kinds)
  obtain r s1 w1 where b: "channel_body sys c oid t k w = (r, s1, w1)"
    by (cases "channel_body sys c oid t k w") auto
  then have f: "factory s1 = factory sys"
    using channel_body_factory [of sys c oid t k w] by simp
  show ?case
    by (cases r) (simp_all add: b Cons.IH f)
qed

lemma dispatch_logger:
  "\<exists>rs. logger (fst (snd (dispatch sys c oid t kinds w))) = logger sys @ rs"
proof (induction kinds arbitrary: sys w)
  case Nil
  show ?case by simp
next
  case (Cons k kinds)
  obtain r s1 w1 where b: "channel_body sys c oid t k w = (r, s1, w1)"
    by (cases "channel_body sys c oid t k w") auto
  then obtain rs1 where l: "logger s1 = logger sys @ rs1"
    using channel_body_logger [of sys c oid t k w] by auto
  show ?case
  proof (cases r)
    case (Inl e)
    show ?thesis
    proof (cases "is_ValueError e")
      case True
      from Cons.IH [of s1 "print (ErrorLine e) w1"] obtain rs2 where
        "logger (fst (snd (dispatch s1 c oid t kinds (print (ErrorLine e) w1)))) = logger s1 @ rs2"
        by blast
      with b Inl True l show ?thesis by simp
    next
      case False
      with b Inl l show ?thesis by simp
    qed
  next
    case (Inr u)
    from Cons.IH [of s1 w1] obtain rs2 where
      "logger (fst (snd (dispatch s1 c oid t kinds w1))) = logger s1 @ rs2"
      by blast
    with b Inr l show ?thesis by simp
  qed
qed

lemma dispatch_append:
  "dispatch sys c oid t (xs @ ys) w =
     (case dispatch sys c oid t xs w of
        (Inl e, s, w1) \<Rightarrow> (Inl e, s, w1)
      | (Inr u, s, w1) \<Rightarrow> dispatch s c oid t ys w1)"
proof (induction xs arbitrary: sys w)
  case Nil
  show ?case by simp
next
  case (Cons k xs)
  show ?case
    by (simp add: Cons.IH split: prod.splits sum.splits)
qed

lemma run_loop_append:
  "run_loop sys od (xs @ ys) w =
     (case run_loop sys od xs w of
        (Inl e, s, w1) \<Rightarrow> (Inl e, s, w1)
      | (Inr u, s, w1) \<Rightarrow> run_loop s od ys w1)"
  by (rule dispatch_append)

lemma run_loop_factory: "run_loop sys od kinds w = (r, s, w1) \<Longrightarrow> factory s = factory sys"
  using dispatch_factory [of sys "dict_get od ''customer'' PNone" "dict_get od ''order_id'' PNone"
          "dict_get od ''total'' PNone" kinds w]
  by simp

lemma process_order_logger:
  "\<exists>rs. logger (fst (snd (process_order sys od kinds w))) = logger sys @ rs"
proof -
  have d: "\<exists>rs. logger (fst (snd (returning (dispatch sys c oid t kinds w')))) = logger sys @ rs"
    for c oid t w'
    using dispatch_logger [of sys c oid t kinds w']
    by (cases "dispatch sys c oid t kinds w'") (auto simp: returning_def split: sum.splits)
  show ?thesis
    unfolding process_order_def Let_def
    by (simp split: sum.splits prod.splits add: d)
qed


lemma send_each_sent:
  "sent_in_turn ns c oid t w rs w1 \<Longrightarrow>
   send_each (map (\<lambda>n. send n c oid t) ns) acc w = (Inr (acc @ map PDict rs), w1)"
proof (induction ns arbitrary: w rs acc)
  case Nil
  then show ?case by simp
next
  case (Cons n ns)
  then show ?case
    by (auto split: prod.splits sum.splits list.splits)
qed

lemma send_each_raised:
  "sent_in_turn ns1 c oid t w rs w1 \<Longrightarrow> send n c oid t w1 = (Inl e, w2) \<Longrightarrow>
   send_each (map (\<lambda>n. send n c oid t) (ns1 @ n # ns2)) acc w = (Inl e, w2)"
proof (induction ns1 arbitrary: w rs acc)
  case Nil
  then show ?case by simp
next
  case (Cons m ns1)
  then show ?case
    by (auto split: prod.splits sum.splits list.splits)
qed

lemma sent_in_turn_length: "sent_in_turn ns c oid t w rs w1 \<Longrightarrow> length rs = length ns"
proof (induction ns arbitrary: w rs)
  case Nil
  then show ?case by simp
next
  case (Cons n ns)
  then show ?case
    by (auto split: prod.splits sum.splits list.splits)
qed

lemma retry_loop_typed:
  assumes "\<And>w r w'. inner w = (Inr r, w') \<Longrightarrow> typed r"
  shows "retry_loop inner m attempts w = (Inr d, w1) \<Longrightarrow> typed d"
proof (induction attempts arbitrary: w)
  case Nil
  then show ?case by (auto simp: typed_def dict_get_def)
next
  case (Cons a attempts)
  obtain r w2 where i: "inner (print (RetryAttempt (a + 1) m) w) = (r, w2)"
    by (cases "inner (print (RetryAttempt (a + 1) m) w)") auto
  show ?case
  proof (cases r)
    case (Inl e)
    with Cons.prems i have "retry_loop inner m attempts (print (RetryError (a + 1) e) w2) = (Inr d, w1)"
      by (simp split: if_splits)
    then show ?thesis by (rule Cons.IH)
  next
    case (Inr r')
    with Cons.prems i have "d = r'" by simp
    with assms i Inr show ?thesis by simp
  qed
qed

lemma in_file_typed:
  "in_file n \<Longrightarrow> send n c oid t w = (Inr d, w1) \<Longrightarrow> typed d"
proof (induction n c oid t w arbitrary: d w1 rule: send.induct)
  case (1 customer order_id total' w)
  then show ?case
    by (auto simp: typed_def dict_get_def Let_def now_iso_def split: sum.splits)
next
  case (2 customer order_id total' w)
  then show ?case
    by (auto simp: typed_def dict_get_def Let_def now_iso_def split: sum.splits)
next
  case (3 customer order_id total' w)
  then show ?case
    by (auto simp: typed_def dict_get_def Let_def now_iso_def split: sum.splits)
next
  case (4 n customer order_id total' w)
  then show ?case by simp
next
  case (5 n max_retries customer order_id total' w)
  have "\<And>w r w'. send n customer order_id total' w = (Inr r, w') \<Longrightarrow> typed r"
    using 5 by simp
  from retry_loop_typed [of "send n customer order_id total'", OF this] 5(3)
  show ?case by simp
next
  case (6 n customer order_id total' w)
  then show ?case
    by (auto split: prod.splits sum.splits)
next
  case (7 name ns customer order_id total' w)
  then show ?case
    by (auto simp: typed_def dict_get_def now_iso_def split: prod.splits sum.splits)
next
  case (8 name ty beh customer order_id total' w)
  then show ?case by simp
qed

section \<open>The dispatch loop\<close>




text \<open>
  C2 (as amended): for an order that passes validation, when the channels before \<open>k\<close>
  have been processed: if \<open>k\<close> has no registered notifier, or the \<open>send\<close> of its
  notifier raises a ValueError, the error is printed and the loop goes on with the
  channels after \<open>k\<close>, from the same system; if the \<open>send\<close> raises any other exception,
  the exception leaves \<open>process_order\<close> at once and the channels after \<open>k\<close> are not
  attempted.
\<close>

theorem value_error_isolated:
  assumes "passes od"
    and "run_loop sys od pre (loop_world od w) = (Inr (), s, w1)"
  shows "(factory sys k = None \<longrightarrow>
            process_order sys od (pre @ k # post) w =
              returning (run_loop s od post
                (print (ErrorLine (ValueError (''Tipo no soportado: '' @ k))) w1)))
       \<and> (factory sys k = Some n \<and> send_order n od w1 = (Inl e, w2) \<and> is_ValueError e \<longrightarrow>
            process_order sys od (pre @ k # post) w =
              returning (run_loop s od post (print (ErrorLine e) w2)))
       \<and> (factory sys k = Some n \<and> send_order n od w1 = (Inl e, w2) \<and> \<not> is_ValueError e \<longrightarrow>
            process_order sys od (pre @ k # post) w = (Inl e, s, w2))"
proof -
  from assms(2) have f: "factory s = factory sys" by (rule run_loop_factory)
  have a: "process_order sys od (pre @ k # post) w =
              returning (run_loop s od post
                (print (ErrorLine (ValueError (''Tipo no soportado: '' @ k))) w1))"
    if "factory sys k = None"
    using that f assms(2)
    by (simp add: process_order_run_loop [OF assms(1)] run_loop_append channel_body_def
          get_notifier_def)
  have b: "channel_body s (dict_get od ''customer'' PNone) (dict_get od ''order_id'' PNone)
             (dict_get od ''total'' PNone) k w1 = (Inl e, s, w2)"
    if "factory sys k = Some n" "send_order n od w1 = (Inl e, w2)"
    using that f by (simp add: channel_body_def get_notifier_def)
  have c: "process_order sys od (pre @ k # post) w =
              returning (run_loop s od post (print (ErrorLine e) w2))"
    if "factory sys k = Some n" "send_order n od w1 = (Inl e, w2)" "is_ValueError e"
    using assms(2) b [OF that(1,2)] that(3)
    by (simp add: process_order_run_loop [OF assms(1)] run_loop_append)
  have d: "process_order sys od (pre @ k # post) w = (Inl e, s, w2)"
    if "factory sys k = Some n" "send_order n od w1 = (Inl e, w2)" "\<not> is_ValueError e"
    using assms(2) b [OF that(1,2)] that(3)
    by (simp add: process_order_run_loop [OF assms(1)] run_loop_append returning_def)
  from a c d show ?thesis by blast
qed

theorem value_error_isolated_witness:
  "process_order system_rejecting order_o1 [''fax'', ''email''] world0
     = returning (run_loop system_rejecting order_o1 [''email'']
         (print (ErrorLine (ValueError ''bad recipient''))
            ((loop_world order_o1 world0)
               \<lparr>calls := (calls (loop_world order_o1 world0))(''gateway'' := 1)\<rparr>)))
   \<and> length (get_notification_history
         (fst (snd (process_order system_rejecting order_o1 [''fax'', ''email''] world0)))) = 1
   \<and> process_order system_rejecting order_o1 [''sms'', ''email''] world0
     = (Inl (KeyError ''phone''), system_rejecting, loop_world order_o1 world0)
   \<and> process_order system_rejecting order_o1 [''telex'', ''email''] world0
     = returning (run_loop system_rejecting order_o1 [''email'']
         (print (ErrorLine (ValueError ''Tipo no soportado: telex''))
            (loop_world order_o1 world0)))"
proof -
  let ?w = "loop_world order_o1 world0"
  let ?w2 = "?w\<lparr>calls := (calls ?w)(''gateway'' := 1)\<rparr>"
  have l: "run_loop system_rejecting order_o1 [] ?w = (Inr (), system_rejecting, ?w)"
    by simp
  have f: "factory system_rejecting ''fax'' = Some (External ''gateway'' ''fax'' rejects)"
    by (simp add: sample_defs)
  have s: "send_order (External ''gateway'' ''fax'' rejects) order_o1 ?w
             = (Inl (ValueError ''bad recipient''), ?w2)"
    by (simp add: sample_defs)
  have v: "is_ValueError (ValueError ''bad recipient'')"
    by simp
  from value_error_isolated
         [OF passes_order_o1 l, of "''fax''" "[''email'']" "External ''gateway'' ''fax'' rejects"
            "ValueError ''bad recipient''" ?w2] f s v
  have a: "process_order system_rejecting order_o1 [''fax'', ''email''] world0
     = returning (run_loop system_rejecting order_o1 [''email'']
         (print (ErrorLine (ValueError ''bad recipient'')) ?w2))"
    by simp
  have b: "length (get_notification_history
         (fst (snd (process_order system_rejecting order_o1 [''fax'', ''email''] world0)))) = 1"
    by (simp add: sample_defs)
  have f2: "factory system_rejecting ''sms'' = Some SMSNotifier"
    by (simp add: sample_defs)
  have s2: "send_order SMSNotifier order_o1 ?w = (Inl (KeyError ''phone''), ?w)"
    by (simp add: sample_defs)
  have v2: "\<not> is_ValueError (KeyError ''phone'')"
    by simp
  from value_error_isolated
         [OF passes_order_o1 l, of "''sms''" "[''email'']" SMSNotifier "KeyError ''phone''" ?w]
       f2 s2 v2
  have c: "process_order system_rejecting order_o1 [''sms'', ''email''] world0
     = (Inl (KeyError ''phone''), system_rejecting, ?w)"
    by simp
  have f3: "factory system_rejecting ''telex'' = None"
    by (simp add: sample_defs)
  from value_error_isolated
         [OF passes_order_o1 l, of "''telex''" "[''email'']" SMSNotifier "KeyError ''phone''" ?w]
       f3
  have d: "process_order system_rejecting order_o1 [''telex'', ''email''] world0
     = returning (run_loop system_rejecting order_o1 [''email'']
         (print (ErrorLine (ValueError ''Tipo no soportado: telex'')) ?w))"
    by simp
  from a b c d show ?thesis by blast
qed

text \<open>
  C2 as stated fails: with \<open>fax\<close> served by a notifier whose transport is down
  (behind a retry decorator that gives up after two attempts), requesting \<open>fax\<close> and
  then \<open>email\<close> raises the transport's exception out of \<open>process_order\<close>; \<open>email\<close>,
  which has a registered notifier, is not attempted: nothing is printed after the
  second attempt and the history log stays empty.
\<close>

theorem failure_isolation_counterexample:
  "passes order_o1
   \<and> factory system_down ''email'' = Some EmailNotifier
   \<and> fst (process_order system_down order_o1 [''fax'', ''email''] world0)
       = Inl (OtherException ''ConnectionError'')
   \<and> get_notification_history
         (fst (snd (process_order system_down order_o1 [''fax'', ''email''] world0))) = []
   \<and> out (snd (snd (process_order system_down order_o1 [''fax'', ''email''] world0)))
       = out (loop_world order_o1 world0)
         @ [RetryAttempt 1 2, RetryError 1 (OtherException ''ConnectionError''),
            RetryAttempt 2 2]"
  by (simp add: passes_order_o1) (simp add: sample_defs)

text \<open>
  C5: for an order that passes validation, a requested kind \<open>k\<close> with no registered
  notifier yields no result and no exception: requested alone, \<open>process_order\<close> returns
  \<open>None\<close> with the system unchanged and one more line printed, the factory's error; and
  requested between other kinds, the kinds after it are processed from the system that
  the kinds before it left, exactly as without \<open>k\<close> but for that printed line.
\<close>

theorem unregistered_kind_skipped:
  assumes "passes od" and "factory sys k = None"
  shows "process_order sys od [k] w =
           (Inr PNone, sys,
            print (ErrorLine (ValueError (''Tipo no soportado: '' @ k))) (loop_world od w))
       \<and> process_order sys od (pre @ k # post) w =
           returning (case run_loop sys od pre (loop_world od w) of
                        (Inl e, s, w1) \<Rightarrow> (Inl e, s, w1)
                      | (Inr u, s, w1) \<Rightarrow>
                          run_loop s od post
                            (print (ErrorLine (ValueError (''Tipo no soportado: '' @ k))) w1))
       \<and> process_order sys od (pre @ post) w =
           returning (case run_loop sys od pre (loop_world od w) of
                        (Inl e, s, w1) \<Rightarrow> (Inl e, s, w1)
                      | (Inr u, s, w1) \<Rightarrow> run_loop s od post w1)"
proof -
  have step: "run_loop s od (k # ks) w' =
      run_loop s od ks (print (ErrorLine (ValueError (''Tipo no soportado: '' @ k))) w')"
    if "factory s = factory sys" for s ks w'
    using that assms(2) by (simp add: channel_body_def get_notifier_def)
  have a: "process_order sys od [k] w =
           (Inr PNone, sys,
            print (ErrorLine (ValueError (''Tipo no soportado: '' @ k))) (loop_world od w))"
    using step [of sys "[]" "loop_world od w"]
    by (simp add: process_order_run_loop [OF assms(1)] returning_def)
  have b: "run_loop sys od (pre @ k # post) (loop_world od w) =
      (case run_loop sys od pre (loop_world od w) of
         (Inl e, s, w1) \<Rightarrow> (Inl e, s, w1)
       | (Inr u, s, w1) \<Rightarrow>
           run_loop s od post (print (ErrorLine (ValueError (''Tipo no soportado: '' @ k))) w1))"
  proof (cases "run_loop sys od pre (loop_world od w)")
    case (fields r s w1)
    then have "factory s = factory sys" by (rule run_loop_factory)
    from step [OF this] fields show ?thesis
      by (simp add: run_loop_append split: sum.splits)
  qed
  from a b show ?thesis
    by (simp add: process_order_run_loop [OF assms(1)] run_loop_append)
qed

theorem unregistered_kind_skipped_witness:
  "passes order_o1
   \<and> factory OrderNotificationSystem ''fax'' = None
   \<and> process_order OrderNotificationSystem order_o1 [''fax''] world0
       = (Inr PNone, OrderNotificationSystem,
          print (ErrorLine (ValueError ''Tipo no soportado: fax'')) (loop_world order_o1 world0))
   \<and> fst (process_order OrderNotificationSystem order_o1 [''email'', ''fax'', ''email''] world0)
       = Inr PNone
   \<and> map (\<lambda>r. dict_get r ''type'' PNone)
        (get_notification_history
           (fst (snd (process_order OrderNotificationSystem order_o1
                        [''email'', ''fax'', ''email''] world0))))
       = [PStr ''email'', PStr ''email'']"
proof -
  have f: "factory OrderNotificationSystem ''fax'' = None"
    by (simp add: sample_defs)
  from unregistered_kind_skipped [OF passes_order_o1 f, of world0 "[''email'']" "[''email'']"]
  have a: "process_order OrderNotificationSystem order_o1 [''fax''] world0
       = (Inr PNone, OrderNotificationSystem,
          print (ErrorLine (ValueError ''Tipo no soportado: fax'')) (loop_world order_o1 world0))"
    by simp
  have b: "fst (process_order OrderNotificationSystem order_o1 [''email'', ''fax'', ''email''] world0)
       = Inr PNone"
    by (simp add: sample_defs)
  have c: "map (\<lambda>r. dict_get r ''type'' PNone)
        (get_notification_history
           (fst (snd (process_order OrderNotificationSystem order_o1
                        [''email'', ''fax'', ''email''] world0))))
       = [PStr ''email'', PStr ''email'']"
    by (simp add: sample_defs)
  from passes_order_o1 f a b c show ?thesis by blast
qed

section \<open>The composite notifier\<close>

text \<open>
  C7 (as amended): when the members' sends, made one after the other in the order the
  members were added, all return, the composite's \<open>send\<close> returns an aggregate whose
  \<open>results\<close> are exactly the members' results in that order, one per member; when a
  member's \<open>send\<close> raises, the exception leaves the composite's \<open>send\<close>: the members
  after it are not invoked and no aggregate is returned.
\<close>

theorem composite_members_in_order:
  "(sent_in_turn ns c oid t (print (GroupHeader name) w) rs w1 \<longrightarrow>
      length rs = length ns
    \<and> send (CompositeNotifier name ns) c oid t w =
        (Inr [(''type'', PStr ''composite''), (''group'', PStr name),
              (''results'', PList (map PDict rs)), (''timestamp'', PTimestamp (tick w1))],
         w1\<lparr>tick := Suc (tick w1)\<rparr>))
 \<and> (sent_in_turn ns1 c oid t (print (GroupHeader name) w) rs w1
      \<and> send n c oid t w1 = (Inl e, w2) \<longrightarrow>
      send (CompositeNotifier name (ns1 @ n # ns2)) c oid t w = (Inl e, w2))"
proof -
  have a: "send (CompositeNotifier name ns) c oid t w =
        (Inr [(''type'', PStr ''composite''), (''group'', PStr name),
              (''results'', PList (map PDict rs)), (''timestamp'', PTimestamp (tick w1))],
         w1\<lparr>tick := Suc (tick w1)\<rparr>)"
    if "sent_in_turn ns c oid t (print (GroupHeader name) w) rs w1"
    using send_each_sent [OF that, of "[]"] by (simp add: now_iso_def)
  have b: "send (CompositeNotifier name (ns1 @ n # ns2)) c oid t w = (Inl e, w2)"
    if "sent_in_turn ns1 c oid t (print (GroupHeader name) w) rs w1"
       "send n c oid t w1 = (Inl e, w2)"
    using send_each_raised [OF that, of ns2 "[]"] by simp
  from a b sent_in_turn_length show ?thesis by blast
qed

theorem composite_members_in_order_witness:
  "send (CompositeNotifier ''Premium'' [EmailNotifier, SMSNotifier, PushNotifier])
      customer_full (PStr ''O1'') (PInt 10) world0
     = (Inr [(''type'', PStr ''composite''), (''group'', PStr ''Premium''),
             (''results'', PList [PDict (email_result 0), PDict (sms_result 1),
                                  PDict (push_result 2)]),
             (''timestamp'', PTimestamp 3)],
        \<lparr>out = [GroupHeader ''Premium'',
                EmailSent (PStr ''a@x.com'')
                  (PFString EmailMsg [PStr ''Ana'', PStr ''O1'', PInt 10]),
                SmsSent (PStr ''+34-600-123-456'') (PFString SmsMsg [PStr ''O1'', PInt 10]),
                PushSent (PStr ''DEV-123'') (PFString PushMsg [PStr ''O1'', PInt 10])],
         tick = 4, calls = (\<lambda>name. 0)\<rparr>)
   \<and> send (CompositeNotifier ''Premium'' ([EmailNotifier] @ SMSNotifier # [PushNotifier]))
      customer_ana (PStr ''O1'') (PInt 10) world0
     = (Inl (KeyError ''phone''),
        \<lparr>out = [GroupHeader ''Premium'',
                EmailSent (PStr ''a@x.com'')
                  (PFString EmailMsg [PStr ''Ana'', PStr ''O1'', PInt 10])],
         tick = 1, calls = (\<lambda>name. 0)\<rparr>)"
proof -
  let ?w3 = "\<lparr>out = [GroupHeader ''Premium'',
                EmailSent (PStr ''a@x.com'')
                  (PFString EmailMsg [PStr ''Ana'', PStr ''O1'', PInt 10]),
                SmsSent (PStr ''+34-600-123-456'') (PFString SmsMsg [PStr ''O1'', PInt 10]),
                PushSent (PStr ''DEV-123'') (PFString PushMsg [PStr ''O1'', PInt 10])],
         tick = 3, calls = (\<lambda>name. 0)\<rparr>"
  let ?w1 = "\<lparr>out = [GroupHeader ''Premium'',
                EmailSent (PStr ''a@x.com'')
                  (PFString EmailMsg [PStr ''Ana'', PStr ''O1'', PInt 10])],
         tick = 1, calls = (\<lambda>name. 0)\<rparr>"
  have s: "sent_in_turn [EmailNotifier, SMSNotifier, PushNotifier] customer_full (PStr ''O1'')
             (PInt 10) (print (GroupHeader ''Premium'') world0)
             [email_result 0, sms_result 1, push_result 2] ?w3"
    by (simp add: sample_defs)
  have s1: "sent_in_turn [EmailNotifier] customer_ana (PStr ''O1'')
             (PInt 10) (print (GroupHeader ''Premium'') world0) [email_result 0] ?w1"
    by (simp add: sample_defs)
  have r: "send SMSNotifier customer_ana (PStr ''O1'') (PInt 10) ?w1
             = (Inl (KeyError ''phone''), ?w1)"
    by (simp add: sample_defs)
  from composite_members_in_order
         [where ns = "[EmailNotifier, SMSNotifier, PushNotifier]" and c = customer_full
            and oid = "PStr ''O1''" and t = "PInt 10" and name = "''Premium''" and w = world0
            and rs = "[email_result 0, sms_result 1, push_result 2]" and ?w1.0 = ?w3]
       s
  have a: "send (CompositeNotifier ''Premium'' [EmailNotifier, SMSNotifier, PushNotifier])
      customer_full (PStr ''O1'') (PInt 10) world0
     = (Inr [(''type'', PStr ''composite''), (''group'', PStr ''Premium''),
             (''results'', PList [PDict (email_result 0), PDict (sms_result 1),
                                  PDict (push_result 2)]),
             (''timestamp'', PTimestamp 3)], ?w3\<lparr>tick := 4\<rparr>)"
    by simp
  from composite_members_in_order
         [where ?ns1.0 = "[EmailNotifier]" and c = customer_ana
            and oid = "PStr ''O1''" and t = "PInt 10" and name = "''Premium''" and w = world0
            and rs = "[email_result 0]" and ?w1.0 = ?w1 and n = SMSNotifier
            and e = "KeyError ''phone''" and ?w2.0 = ?w1 and ?ns2.0 = "[PushNotifier]"]
       s1 r
  have b: "send (CompositeNotifier ''Premium'' ([EmailNotifier] @ SMSNotifier # [PushNotifier]))
      customer_ana (PStr ''O1'') (PInt 10) world0 = (Inl (KeyError ''phone''), ?w1)"
    by blast
  from a b show ?thesis by simp
qed

text \<open>
  C7 as stated fails: a composite of \<open>SMSNotifier\<close> and \<open>EmailNotifier\<close>, sent
  for the scenario's customer (no \<open>phone\<close>), raises KeyError after printing only its
  header: \<open>EmailNotifier\<close>, whose \<open>send\<close> would succeed, is not invoked, and there is no
  aggregate result.
\<close>

theorem composite_counterexample:
  "send (CompositeNotifier ''Premium'' [SMSNotifier, EmailNotifier])
      customer_ana (PStr ''O1'') (PInt 10) world0
     = (Inl (KeyError ''phone''), print (GroupHeader ''Premium'') world0)
   \<and> fst (send EmailNotifier customer_ana (PStr ''O1'') (PInt 10) world0)
       = Inr (email_result 0)"
  by (simp add: sample_defs)

section \<open>The history log and the observers\<close>

text \<open>
  C9 (as amended): \<open>log\<close> appends and \<open>get_history\<close> returns the list as it is;
  whatever \<open>process_order\<close> does, the history afterwards is the history before with
  results appended; the result of a successful \<open>send\<close> in the loop is appended to the
  history and then handed to \<open>_notify_observers\<close>; and \<open>_notify_observers\<close> updates the
  observers in list order: every one of them when none raises on the result (so for
  every result whose type can be a dict key, and every result of the file's own
  notifiers is one); when an observer raises, the observers before it have been
  updated, those after it are not, and the exception is what \<open>_notify_observers\<close>
  raises.  \<open>AnalyticsObserver\<close> raises TypeError on a result whose type cannot be a
  dict key.
\<close>

theorem history_append_and_forward:
  "get_history (log l d) = get_history l @ [d]
 \<and> (\<exists>rs. get_notification_history (fst (snd (process_order sys od kinds w)))
            = get_notification_history sys @ rs)
 \<and> (factory sys k = Some n \<and> send n c oid t w = (Inr d, w1) \<longrightarrow>
       get_notification_history (fst (snd (channel_body sys c oid t k w)))
         = get_notification_history sys @ [d]
     \<and> (fst (channel_body sys c oid t k w),
         observers (fst (snd (channel_body sys c oid t k w))),
         snd (snd (channel_body sys c oid t k w)))
         = notify_observers (observers sys) d w1)
 \<and> (accepted obs d \<longrightarrow>
       fst (notify_observers obs d w) = Inr ()
     \<and> length (fst (snd (notify_observers obs d w))) = length obs
     \<and> out (snd (snd (notify_observers obs d w))) = out w @ map (\<lambda>ob. update_line ob d) obs)
 \<and> (typed d \<or> (\<exists>n' c' oid' t' w' w''. in_file n' \<and> send n' c' oid' t' w' = (Inr d, w''))
       \<longrightarrow> accepted obs d)
 \<and> (notify_observers pre d w = (Inr (), pre1, w2) \<and> update ob d w2 = (Inl e, ob1, w3) \<longrightarrow>
       notify_observers (pre @ ob # post) d w = (Inl e, pre1 @ ob1 # post, w3))
 \<and> (\<not> typed d \<longrightarrow>
       update (AnalyticsObserver notification_count) d w
         = (Inl TypeError, AnalyticsObserver notification_count, w))"
proof -
  have a: "get_history (log l d) = get_history l @ [d]"
    by (simp add: get_history_def log_def)
  have b: "\<exists>rs. get_notification_history (fst (snd (process_order sys od kinds w)))
            = get_notification_history sys @ rs"
    using process_order_logger [of sys od kinds w]
    by (simp add: get_notification_history_def get_history_def)
  have c: "get_notification_history (fst (snd (channel_body sys c oid t k w)))
         = get_notification_history sys @ [d]
     \<and> (fst (channel_body sys c oid t k w),
         observers (fst (snd (channel_body sys c oid t k w))),
         snd (snd (channel_body sys c oid t k w)))
         = notify_observers (observers sys) d w1"
    if "factory sys k = Some n" "send n c oid t w = (Inr d, w1)"
    using that
    by (simp add: channel_body_def get_notifier_def log_def get_notification_history_def
          get_history_def split: prod.splits)
  have e: "accepted obs d"
    if "typed d \<or> (\<exists>n' c' oid' t' w' w''. in_file n' \<and> send n' c' oid' t' w' = (Inr d, w''))"
  proof -
    from that have "typed d" using in_file_typed by blast
    then show ?thesis by (rule typed_accepted)
  qed
  have g: "update (AnalyticsObserver notification_count) d w
         = (Inl TypeError, AnalyticsObserver notification_count, w)"
    if "\<not> typed d"
    using that update_raised [of "AnalyticsObserver notification_count" d w] by simp
  from a b c e g notify_observers_accepted [of obs d w]
       notify_observers_raised [of pre d w pre1 w2 ob e ob1 w3 post]
  show ?thesis
    by blast
qed

theorem history_append_and_forward_witness:
  "get_history (log [email_result 0] (email_result 0)) = [email_result 0, email_result 0]
   \<and> get_notification_history
        (fst (snd (channel_body system_observed customer_ana (PStr ''O1'') (PInt 10)
                     ''email'' world0)))
       = [email_result 0]
   \<and> accepted (observers system_observed) (email_result 0)
   \<and> fst (notify_observers (observers system_observed) (email_result 0) world0) = Inr ()
   \<and> out (snd (snd (notify_observers (observers system_observed) (email_result 0) world0)))
       = [AnalyticsLine (PStr ''email'') 1, AuditLine (PStr ''email'') (PStr ''a@x.com'')]
   \<and> notify_observers ([AuditObserver []] @ AnalyticsObserver [] # [AuditObserver []])
        odd_result world0
       = (Inl TypeError,
          [AuditObserver [[(''timestamp'', PTimestamp 0),
                           (''notification_type'', PList [PStr ''x'']),
                           (''recipient'', PStr ''q''), (''status'', PStr ''sent'')]]]
            @ AnalyticsObserver [] # [AuditObserver []],
          \<lparr>out = [AuditLine (PList [PStr ''x'']) (PStr ''q'')], tick = 1,
             calls = (\<lambda>name. 0)\<rparr>)"
proof -
  let ?w1 = "\<lparr>out = [EmailSent (PStr ''a@x.com'')
                  (PFString EmailMsg [PStr ''Ana'', PStr ''O1'', PInt 10])],
         tick = 1, calls = (\<lambda>name. 0)\<rparr>"
  let ?w2 = "\<lparr>out = [AuditLine (PList [PStr ''x'']) (PStr ''q'')], tick = 1,
             calls = (\<lambda>name. 0)\<rparr>"
  let ?au = "AuditObserver [[(''timestamp'', PTimestamp 0),
                           (''notification_type'', PList [PStr ''x'']),
                           (''recipient'', PStr ''q''), (''status'', PStr ''sent'')]]"
  have f: "factory system_observed ''email'' = Some EmailNotifier"
    by (simp add: sample_defs)
  have s: "send EmailNotifier customer_ana (PStr ''O1'') (PInt 10) world0
             = (Inr (email_result 0), ?w1)"
    by (simp add: sample_defs)
  have h: "typed (email_result 0)"
    by (simp add: typed_def sample_defs)
  note t = history_append_and_forward
         [where l = "[email_result 0]" and d = "email_result 0" and sys = system_observed
            and k = "''email''" and n = EmailNotifier and c = customer_ana
            and oid = "PStr ''O1''" and t = "PInt 10" and w = world0 and ?w1.0 = ?w1
            and obs = "observers system_observed" and od = order_o1 and kinds = "[]"]
  from t have a: "get_history (log [email_result 0] (email_result 0))
                    = [email_result 0, email_result 0]"
    by (simp add: get_history_def)
  from t f s have b: "get_notification_history
        (fst (snd (channel_body system_observed customer_ana (PStr ''O1'') (PInt 10)
                     ''email'' world0)))
       = get_notification_history system_observed @ [email_result 0]"
    by blast
  from t h have acc: "accepted (observers system_observed) (email_result 0)"
    by blast
  from t acc have c: "fst (notify_observers (observers system_observed) (email_result 0) world0)
                      = Inr ()"
    and d: "out (snd (snd (notify_observers (observers system_observed) (email_result 0) world0)))
       = out world0 @ map (\<lambda>ob. update_line ob (email_result 0)) (observers system_observed)"
    by blast+
  from b have b': "get_notification_history
        (fst (snd (channel_body system_observed customer_ana (PStr ''O1'') (PInt 10)
                     ''email'' world0))) = [email_result 0]"
    by (simp add: sample_defs)
  from d have d': "out (snd (snd (notify_observers (observers system_observed) (email_result 0) world0)))
       = [AnalyticsLine (PStr ''email'') 1, AuditLine (PStr ''email'') (PStr ''a@x.com'')]"
    by (simp add: sample_defs update_line_def)
  have n1: "notify_observers [AuditObserver []] odd_result world0 = (Inr (), [?au], ?w2)"
    by (simp add: sample_defs)
  have nt: "\<not> typed odd_result"
    by (simp add: typed_def sample_defs)
  note t2 = history_append_and_forward
         [where d = odd_result and w = ?w2 and notification_count = "[]"]
  from t2 nt have u: "update (AnalyticsObserver []) odd_result ?w2
                        = (Inl TypeError, AnalyticsObserver [], ?w2)"
    by blast
  note t3 = history_append_and_forward
         [where d = odd_result and w = world0 and pre = "[AuditObserver []]" and ?pre1.0 = "[?au]"
            and ?w2.0 = ?w2 and ob = "AnalyticsObserver []" and e = TypeError
            and ?ob1.0 = "AnalyticsObserver []" and ?w3.0 = ?w2 and post = "[AuditObserver []]"]
  from t3 n1 u have r: "notify_observers ([AuditObserver []] @ AnalyticsObserver [] # [AuditObserver []])
        odd_result world0
       = (Inl TypeError, [?au] @ AnalyticsObserver [] # [AuditObserver []], ?w2)"
    by blast
  from a b' acc c d' r show ?thesis by blast
qed

text \<open>
  C9 as stated fails: not every appended result reaches every registered listener.
  With the two observers of the demonstration attached and \<open>x\<close> served by a notifier
  whose results carry a list as their type, the result of its \<open>send\<close> is appended to the
  history, \<open>AnalyticsObserver.update\<close> raises TypeError on it, and \<open>AuditObserver\<close>,
  registered after it, is never updated: its \<open>audit_log\<close> stays empty.
\<close>

theorem forward_to_listeners_counterexample:
  "factory system_odd ''x'' = Some (External ''odd'' ''x'' odd_type)
   \<and> observers system_odd = [AnalyticsObserver [], AuditObserver []]
   \<and> fst (send (External ''odd'' ''x'' odd_type) customer_ana (PStr ''O1'') (PInt 10) world0)
       = Inr odd_result
   \<and> notify_observers (observers system_odd) odd_result world0
       = (Inl TypeError, [AnalyticsObserver [], AuditObserver []], world0)
   \<and> passes order_o1
   \<and> fst (process_order system_odd order_o1 [''x''] world0) = Inl TypeError
   \<and> get_notification_history (fst (snd (process_order system_odd order_o1 [''x''] world0)))
       = [odd_result]
   \<and> observers (fst (snd (process_order system_odd order_o1 [''x''] world0)))
       = [AnalyticsObserver [], AuditObserver []]"
  by (simp add: passes_order_o1) (simp add: typed_def sample_defs)

section \<open>The notifier registry\<close>



section \<open>The retry decorator\<close>

text \<open>
  C8: a retry decorator around a notifier whose next two sends raise and whose third
  send returns \<open>r\<close>: with \<open>max_retries = 3\<close> its send returns \<open>r\<close>, with
  \<open>max_retries = 2\<close> it raises the exception of the second attempt.
\<close>

theorem retry_third_attempt:
  assumes "beh (calls w name) c oid t = Inl e0"
    and "beh (Suc (calls w name)) c oid t = Inl e1"
    and "beh (Suc (Suc (calls w name))) c oid t = Inr r"
  shows "fst (send (RetryDecorator (External name ty beh) 3) c oid t w) = Inr r
       \<and> fst (send (RetryDecorator (External name ty beh) 2) c oid t w) = Inl e1"
  using assms by (simp add: print_def upto_0_2 upto_0_1)

theorem retry_third_attempt_witness:
  "fst (send (RetryDecorator (External ''flaky'' ''email'' fails_twice) 3)
          customer_ana (PStr ''O1'') (PInt 10) world0)
     = Inr [(''type'', PStr ''email''), (''to'', PStr ''a@x.com'')]
   \<and> fst (send (RetryDecorator (External ''flaky'' ''email'' fails_twice) 2)
          customer_ana (PStr ''O1'') (PInt 10) world0)
     = Inl (OtherException ''ConnectionError'')"
proof -
  have a: "fails_twice (calls world0 ''flaky'') customer_ana (PStr ''O1'') (PInt 10)
             = Inl (OtherException ''ConnectionError'')"
    by (simp add: fails_twice_def world0_def)
  have b: "fails_twice (Suc (calls world0 ''flaky'')) customer_ana (PStr ''O1'') (PInt 10)
             = Inl (OtherException ''ConnectionError'')"
    by (simp add: fails_twice_def world0_def)
  have c: "fails_twice (Suc (Suc (calls world0 ''flaky''))) customer_ana (PStr ''O1'') (PInt 10)
             = Inr [(''type'', PStr ''email''), (''to'', PStr ''a@x.com'')]"
    by (simp add: fails_twice_def world0_def)
  from retry_third_attempt
         [where beh = fails_twice and w = world0 and name = "''flaky''" and c = customer_ana
            and oid = "PStr ''O1''" and t = "PInt 10" and ty = "''email''", OF a b c]
  show ?thesis .
qed

section \<open>The validator chain\<close>

text \<open>
  C6: \<open>validate\<close> on the chain of \<open>_build_validator_chain\<close> checks the identifier, then
  the customer, then the total, and stops at the first check that fails: what it prints
  is the line of every check passed so far and then the line of the failing check, and
  nothing of a later check (not even the exception a later check would raise).
\<close>

theorem validate_order:
  "(\<not> truthy (dict_get od ''order_id'' PNone) \<longrightarrow>
      validate build_validator_chain od w = (Inr False, print OrderIdMissing w))
 \<and> (truthy (dict_get od ''order_id'' PNone)
      \<and> py_get (dict_get od ''customer'' (PDict [])) ''name'' = Inl e \<longrightarrow>
      validate build_validator_chain od w = (Inl e, print OrderIdValid w))
 \<and> (truthy (dict_get od ''order_id'' PNone)
      \<and> py_get (dict_get od ''customer'' (PDict [])) ''name'' = Inr nm
      \<and> py_get (dict_get od ''customer'' (PDict [])) ''email'' = Inr em
      \<and> \<not> (truthy nm \<and> truthy em) \<longrightarrow>
      validate build_validator_chain od w =
        (Inr False, print CustomerIncomplete (print OrderIdValid w)))
 \<and> (truthy (dict_get od ''order_id'' PNone)
      \<and> py_get (dict_get od ''customer'' (PDict [])) ''name'' = Inr nm
      \<and> py_get (dict_get od ''customer'' (PDict [])) ''email'' = Inr em
      \<and> truthy nm \<and> truthy em \<longrightarrow>
      validate build_validator_chain od w =
        (case py_le0 (dict_get od ''total'' (PInt 0)) of
           Inl e' \<Rightarrow> (Inl e', print CustomerValid (print OrderIdValid w))
         | Inr True \<Rightarrow>
             (Inr False, print TotalInvalid (print CustomerValid (print OrderIdValid w)))
         | Inr False \<Rightarrow>
             (Inr True, print TotalValid (print CustomerValid (print OrderIdValid w)))))"
  by (simp add: build_validator_chain_def Let_def split: sum.splits bool.splits)

theorem validate_order_witness:
  "validate build_validator_chain order_no_id world0 = (Inr False, print OrderIdMissing world0)
   \<and> validate build_validator_chain order_no_email world0
       = (Inr False, print CustomerIncomplete (print OrderIdValid world0))
   \<and> validate build_validator_chain order_negative world0
       = (Inr False, print TotalInvalid (print CustomerValid (print OrderIdValid world0)))
   \<and> validate build_validator_chain order_o1 world0
       = (Inr True, print TotalValid (print CustomerValid (print OrderIdValid world0)))"
proof -
  from validate_order [where od = order_no_id and w = world0]
  have a: "validate build_validator_chain order_no_id world0
             = (Inr False, print OrderIdMissing world0)"
    by (simp add: order_no_id_def dict_get_def)
  from validate_order [where od = order_no_email and w = world0
                         and nm = "PStr ''Pedro''" and em = PNone]
  have b: "validate build_validator_chain order_no_email world0
             = (Inr False, print CustomerIncomplete (print OrderIdValid world0))"
    by (simp add: order_no_email_def dict_get_def)
  from validate_order [where od = order_negative and w = world0
                         and nm = "PStr ''Ana''" and em = "PStr ''a@x.com''"]
  have c: "validate build_validator_chain order_negative world0
             = (Inr False, print TotalInvalid (print CustomerValid (print OrderIdValid world0)))"
    by (simp add: order_negative_def customer_ana_def dict_get_def)
  from validate_order [where od = order_o1 and w = world0
                         and nm = "PStr ''Ana''" and em = "PStr ''a@x.com''"]
  have d: "validate build_validator_chain order_o1 world0
             = (Inr True, print TotalValid (print CustomerValid (print OrderIdValid world0)))"
    by (simp add: order_o1_def customer_ana_def dict_get_def)
  from a b c d show ?thesis by simp
qed

section \<open>Orders that never reach the dispatch loop\<close>



text \<open>
  C10: an order dict that lacks \<open>order_id\<close>, \<open>customer\<close> or \<open>total\<close> makes
  \<open>process_order\<close> raise the KeyError of the first of them that is missing, with the
  system and the world untouched: nothing was printed, so no validation check ran.
  Hence whenever \<open>process_order\<close> prints anything (a validation failure included), the
  order carries all three keys.
\<close>

theorem process_order_missing_key:
  "(map_of od ''order_id'' = None \<longrightarrow>
      process_order sys od kinds w = (Inl (KeyError ''order_id''), sys, w))
 \<and> (map_of od ''order_id'' \<noteq> None \<and> map_of od ''customer'' = None \<longrightarrow>
      process_order sys od kinds w = (Inl (KeyError ''customer''), sys, w))
 \<and> (map_of od ''order_id'' \<noteq> None \<and> map_of od ''customer'' \<noteq> None
      \<and> map_of od ''total'' = None \<longrightarrow>
      process_order sys od kinds w = (Inl (KeyError ''total''), sys, w))
 \<and> (snd (snd (process_order sys od kinds w)) \<noteq> w \<longrightarrow>
      map_of od ''order_id'' \<noteq> None \<and> map_of od ''customer'' \<noteq> None
      \<and> map_of od ''total'' \<noteq> None)"
proof -
  have a: "map_of od ''order_id'' = None \<Longrightarrow>
      process_order sys od kinds w = (Inl (KeyError ''order_id''), sys, w)"
    by (simp add: process_order_def dict_item_def)
  have b: "map_of od ''order_id'' \<noteq> None \<Longrightarrow> map_of od ''customer'' = None \<Longrightarrow>
      process_order sys od kinds w = (Inl (KeyError ''customer''), sys, w)"
    by (auto simp: process_order_def dict_item_def)
  have c: "map_of od ''order_id'' \<noteq> None \<Longrightarrow> map_of od ''customer'' \<noteq> None \<Longrightarrow>
      map_of od ''total'' = None \<Longrightarrow>
      process_order sys od kinds w = (Inl (KeyError ''total''), sys, w)"
    by (auto simp: process_order_def dict_item_def)
  from a b c show ?thesis
    by (metis snd_conv)
qed

theorem process_order_missing_key_witness:
  "process_order OrderNotificationSystem order_without_id [''email''] world0
     = (Inl (KeyError ''order_id''), OrderNotificationSystem, world0)
   \<and> process_order OrderNotificationSystem order_without_customer [''email''] world0
     = (Inl (KeyError ''customer''), OrderNotificationSystem, world0)
   \<and> process_order OrderNotificationSystem order_without_total [''email''] world0
     = (Inl (KeyError ''total''), OrderNotificationSystem, world0)"
proof -
  from process_order_missing_key
         [of order_without_id OrderNotificationSystem "[''email'']" world0]
  have a: "process_order OrderNotificationSystem order_without_id [''email''] world0
     = (Inl (KeyError ''order_id''), OrderNotificationSystem, world0)"
    by (simp add: order_without_id_def)
  from process_order_missing_key
         [of order_without_customer OrderNotificationSystem "[''email'']" world0]
  have b: "process_order OrderNotificationSystem order_without_customer [''email''] world0
     = (Inl (KeyError ''customer''), OrderNotificationSystem, world0)"
    by (simp add: order_without_customer_def)
  from process_order_missing_key
         [of order_without_total OrderNotificationSystem "[''email'']" world0]
  have c: "process_order OrderNotificationSystem order_without_total [''email''] world0
     = (Inl (KeyError ''total''), OrderNotificationSystem, world0)"
    by (simp add: order_without_total_def)
  from a b c show ?thesis by simp
qed

end
